theory Spec2Isabelle
  imports Complex_Main "HOL-Library.Multiset"
begin

section \<open>Data model of the dashboard (EventsOverviewPage)\<close>

text \<open>
  The TypeScript interfaces \<^verbatim>\<open>Event\<close>, \<^verbatim>\<open>Position\<close> and \<^verbatim>\<open>Issue\<close> become records.
  Field names carry a prefix where two interfaces share a name (\<^verbatim>\<open>id\<close>, \<^verbatim>\<open>name\<close>).
  An optional or nullable field is an \<open>option\<close>: \<open>None\<close> stands for
  \<^verbatim>\<open>undefined\<close> and \<^verbatim>\<open>null\<close> alike. Integer-valued numbers (\<^verbatim>\<open>needed\<close>,
  \<^verbatim>\<open>filled\<close>) are \<open>int\<close>; coordinates are \<open>real\<close>.
\<close>

record Event =
  event_id :: string
  event_name :: string
  event_date :: string
  event_time :: string

record Position =
  pos_id :: string
  pos_name :: string
  needed :: int
  filled :: int
  latitude :: real
  longitude :: real
  pos_event :: Event

datatype issue_type = IssueError | IssueWarning | IssueInfo

text \<open>
  \<^verbatim>\<open>Issue.position\<close> is \<^verbatim>\<open>{ id, name, event: { name } }\<close>. The objects stored there at
  run time come from two places: the staffing check copies \<^verbatim>\<open>position.id\<close>,
  \<^verbatim>\<open>position.name\<close> and the whole \<^verbatim>\<open>position.event\<close>; the signup notification stores
  the row selected as \<^verbatim>\<open>name, event:events(name)\<close>, which has neither a position id nor
  an event id. The two ids are therefore optional.
\<close>

record IssuePosition =
  ip_id :: "string option"
  ip_name :: string
  ip_event_id :: "string option"
  ip_event_name :: string

record Issue =
  issue_id :: string
  issue_type :: issue_type
  message :: string
  timestamp :: string
  issue_position :: "IssuePosition option"

section \<open>The live issue feed\<close>

text \<open>
  \<^verbatim>\<open>const addIssue = (newIssue) => { setIssues(prev => [newIssue, ...prev].slice(0, 100)); }\<close>

  The state starts as \<^verbatim>\<open>useState<Issue[]>([])\<close>. React applies the queued updater
  functions one after the other, so a sequence of calls is a left fold.
\<close>

definition addIssue :: "Issue \<Rightarrow> Issue list \<Rightarrow> Issue list" where
  "addIssue newIssue prev = take 100 (newIssue # prev)"

definition addIssues :: "Issue list \<Rightarrow> Issue list \<Rightarrow> Issue list" where
  "addIssues feed news = foldl (\<lambda>prev newIssue. addIssue newIssue prev) feed news"

section \<open>Ambient effects\<close>

text \<open>
  Every issue is built with \<^verbatim>\<open>id: crypto.randomUUID()\<close> and
  \<^verbatim>\<open>timestamp: new Date().toISOString()\<close>. Both read the outside world, so a callback
  takes them as a parameter \<open>fresh\<close>: \<open>fresh k\<close> is the pair (uuid, timestamp) obtained
  for the \<open>k\<close>-th issue the callback builds.

  A template literal prints an integer of magnitude below \<open>10\<^sup>2\<^sup>1\<close> in plain decimal;
  \<open>number_to_string\<close> does so for the integers held by \<^verbatim>\<open>filled\<close> and
  \<^verbatim>\<open>needed\<close>. From \<open>10\<^sup>2\<^sup>1\<close> on JavaScript prints the exponent form, which the
  model does not reproduce: the messages built here are those of the code for counts
  below that bound only.
\<close>

fun digits :: "nat \<Rightarrow> string" where
  "digits n =
     (if n < 10 then [''0123456789'' ! n]
      else digits (n div 10) @ [''0123456789'' ! (n mod 10)])"

definition number_to_string :: "int \<Rightarrow> string" where
  "number_to_string i = (if i < 0 then CHR ''-'' # digits (nat (- i)) else digits (nat i))"

section \<open>The staffing monitor\<close>

text \<open>
  \<^verbatim>\<open>
  const staffingInterval = setInterval(() => {
    if (positions) {
      positions.forEach(position => {
        if (position.filled < position.needed) {
          addIssue({
            id: crypto.randomUUID(),
            type: 'warning',
            message: `Position ${position.name} is understaffed (${position.filled}/${position.needed})`,
            timestamp: new Date().toISOString(),
            position: { id: position.id, name: position.name, event: position.event },
          });
        }
      });
    }
  }, 60000);
  \<close>

  \<open>staffingInterval\<close> is one run of the timer callback: it takes the feed and returns the
  feed after the run. \<^verbatim>\<open>positions\<close> is the query result captured by the effect,
  \<^verbatim>\<open>undefined\<close> (\<open>None\<close>) while the query has not resolved. The period of the timer
  is not part of the model.
\<close>

definition understaffedIssue :: "string \<times> string \<Rightarrow> Position \<Rightarrow> Issue" where
  "understaffedIssue stamp position =
     \<lparr> issue_id = fst stamp,
       issue_type = IssueWarning,
       message = ''Position '' @ pos_name position @ '' is understaffed (''
                 @ number_to_string (filled position) @ ''/''
                 @ number_to_string (needed position) @ '')'',
       timestamp = snd stamp,
       issue_position = Some
         \<lparr> ip_id = Some (pos_id position),
           ip_name = pos_name position,
           ip_event_id = Some (event_id (pos_event position)),
           ip_event_name = event_name (pos_event position) \<rparr> \<rparr>"

fun forEachPosition ::
  "(nat \<Rightarrow> string \<times> string) \<Rightarrow> nat \<Rightarrow> Position list \<Rightarrow> Issue list \<Rightarrow> Issue list" where
  "forEachPosition fresh k [] feed = feed"
| "forEachPosition fresh k (position # rest) feed =
     (if filled position < needed position
      then forEachPosition fresh (Suc k) rest (addIssue (understaffedIssue (fresh k) position) feed)
      else forEachPosition fresh k rest feed)"

definition staffingInterval ::
  "(nat \<Rightarrow> string \<times> string) \<Rightarrow> Position list option \<Rightarrow> Issue list \<Rightarrow> Issue list" where
  "staffingInterval fresh positions feed =
     (case positions of
        None \<Rightarrow> feed
      | Some ps \<Rightarrow> forEachPosition fresh 0 ps feed)"

section \<open>The signup notification\<close>

text \<open>
  \<^verbatim>\<open>
  async (payload) => {
    if (payload.eventType === 'INSERT') {
      const { data: position } = await supabase
        .from('volunteer_positions')
        .select('name, event:events(name)')
        .eq('id', payload.new.position_id)
        .single();
      if (!selectedEventId || (position?.event as any)?.id === selectedEventId) {
        addIssue({
          id: crypto.randomUUID(),
          type: 'info',
          message: `New volunteer ${payload.new.volunteer_name} signed up for ${position?.name}`,
          timestamp: new Date().toISOString(),
          position: position as any,
        });
      }
    }
  }
  \<close>

  The data service is outside the repository. Its answer to the lookup is the parameter
  \<open>lookup\<close>: \<open>lookup pid = None\<close> when \<^verbatim>\<open>data\<close> comes back \<^verbatim>\<open>null\<close> (no row, or an
  error, which the callback does not inspect). The row is selected as
  \<^verbatim>\<open>name, event:events(name)\<close>, so it has the two fields of \<open>LookupPosition\<close> and no
  others: reading \<^verbatim>\<open>position.event.id\<close> yields \<^verbatim>\<open>undefined\<close>, which is \<open>lookupEventId\<close>.

  \<^verbatim>\<open>!selectedEventId\<close> holds for \<^verbatim>\<open>null\<close> and for the empty string.
\<close>

datatype change_event = INSERT | UPDATE | DELETE

record SignupPayload =
  eventType :: change_event
  new_position_id :: string
  new_volunteer_name :: string

record LookupPosition =
  lp_name :: string
  lp_event_name :: string

definition noSelection :: "string option \<Rightarrow> bool" where
  "noSelection selectedEventId =
     (case selectedEventId of None \<Rightarrow> True | Some sel \<Rightarrow> sel = [])"

definition lookupEventId :: "LookupPosition option \<Rightarrow> string option" where
  "lookupEventId position = (case position of None \<Rightarrow> None | Some row \<Rightarrow> None)"

definition signupIssue :: "string \<times> string \<Rightarrow> SignupPayload \<Rightarrow> LookupPosition option \<Rightarrow> Issue" where
  "signupIssue stamp payload position =
     \<lparr> issue_id = fst stamp,
       issue_type = IssueInfo,
       message = ''New volunteer '' @ new_volunteer_name payload @ '' signed up for ''
                 @ (case position of None \<Rightarrow> ''undefined'' | Some row \<Rightarrow> lp_name row),
       timestamp = snd stamp,
       issue_position =
         map_option (\<lambda>row. \<lparr> ip_id = None, ip_name = lp_name row,
                               ip_event_id = None, ip_event_name = lp_event_name row \<rparr>)
           position \<rparr>"

definition onSignupChange ::
  "string option \<Rightarrow> (string \<Rightarrow> LookupPosition option) \<Rightarrow> string \<times> string
     \<Rightarrow> SignupPayload \<Rightarrow> Issue list \<Rightarrow> Issue list" where
  "onSignupChange selectedEventId lookup stamp payload feed =
     (if eventType payload = INSERT then
        (let position = lookup (new_position_id payload) in
         if noSelection selectedEventId \<or> lookupEventId position = selectedEventId
         then addIssue (signupIssue stamp payload position) feed
         else feed)
      else feed)"

section \<open>The filtered view of the feed\<close>

text \<open>
  \<^verbatim>\<open>
  issues.filter(issue => !selectedEventId ||
    issue.position?.event.name === events.find(e => e.id === selectedEventId)?.name)
  \<close>

  Both sides of \<^verbatim>\<open>===\<close> are a string or \<^verbatim>\<open>undefined\<close>: the left one is
  \<^verbatim>\<open>undefined\<close> when the issue has no position, the right one when no loaded event has
  the selected id.
\<close>

definition issuesView :: "string option \<Rightarrow> Event list \<Rightarrow> Issue list \<Rightarrow> Issue list" where
  "issuesView selectedEventId events issues =
     filter (\<lambda>issue.
        (case selectedEventId of
           None \<Rightarrow> True
         | Some sel \<Rightarrow>
             sel = [] \<or>
             map_option ip_event_name (issue_position issue)
               = map_option event_name (find (\<lambda>e. event_id e = sel) events)))
       issues"

section \<open>The check-in page: distance and proximity\<close>

text \<open>
  The code computes in IEEE double precision. \<open>calculateDistance\<close> below is the same
  formula in exact real arithmetic, with \<^verbatim>\<open>Math.PI\<close> as \<open>pi\<close> and \<open>atan2 y x\<close> as
  \<^verbatim>\<open>Math.atan2(y, x)\<close> on the reals. It stands for the code only where rounding does
  not decide the result. It does not where the exact value of \<^verbatim>\<open>a\<close> is 1 or close to
  it (two points that are antipodal or nearly so): there the doubles can round
  \<^verbatim>\<open>a\<close> above 1, \<^verbatim>\<open>Math.sqrt(1-a)\<close> is \<^verbatim>\<open>NaN\<close> and the code returns
  \<^verbatim>\<open>NaN\<close>, while the exact formula returns a number. At (8, 0) and (-8, -180) the
  doubles give \<^verbatim>\<open>a = 1.0000000000000002\<close> and the code returns \<^verbatim>\<open>NaN\<close>.

  \<^verbatim>\<open>
  const calculateDistance = (lat1, lon1, lat2, lon2) => {
    const R = 6371e3;
    const \<phi>1 = lat1 * Math.PI/180;
    const \<phi>2 = lat2 * Math.PI/180;
    const \<Delta>\<phi> = (lat2-lat1) * Math.PI/180;
    const \<Delta>\<lambda> = (lon2-lon1) * Math.PI/180;
    const a = Math.sin(\<Delta>\<phi>/2) * Math.sin(\<Delta>\<phi>/2) +
              Math.cos(\<phi>1) * Math.cos(\<phi>2) *
              Math.sin(\<Delta>\<lambda>/2) * Math.sin(\<Delta>\<lambda>/2);
    const c = 2 * Math.atan2(Math.sqrt(a), Math.sqrt(1-a));
    return R * c;
  };
  \<close>
\<close>

definition atan2 :: "real \<Rightarrow> real \<Rightarrow> real" where
  "atan2 y x =
     (if 0 < x then arctan (y / x)
      else if x < 0 then (if 0 \<le> y then arctan (y / x) + pi else arctan (y / x) - pi)
      else if 0 < y then pi / 2
      else if y < 0 then - (pi / 2)
      else 0)"

definition calculateDistance :: "real \<Rightarrow> real \<Rightarrow> real \<Rightarrow> real \<Rightarrow> real" where
  "calculateDistance lat1 lon1 lat2 lon2 =
     (let R = 6371000;
          phi1 = lat1 * pi / 180;
          phi2 = lat2 * pi / 180;
          dphi = (lat2 - lat1) * pi / 180;
          dlam = (lon2 - lon1) * pi / 180;
          a = sin (dphi / 2) * sin (dphi / 2)
              + cos phi1 * cos phi2 * sin (dlam / 2) * sin (dlam / 2);
          c = 2 * atan2 (sqrt a) (sqrt (1 - a))
      in R * c)"

text \<open>
  \<^verbatim>\<open>
  const isNearPosition = () => {
    if (!userLocation || !position?.latitude || !position?.longitude) {
      return true; // If we can't determine location, allow check-in
    }
    const distance = calculateDistance(userLocation.lat, userLocation.lng,
                                       position.latitude, position.longitude);
    // Allow check-in if within 200 meters
    return distance <= 200;
  };
  \<close>

  \<^verbatim>\<open>userLocation\<close> is an object or \<^verbatim>\<open>null\<close>; the position row is selected with
  \<^verbatim>\<open>latitude, longitude\<close>, numbers or \<^verbatim>\<open>null\<close>. The operator \<^verbatim>\<open>!\<close> holds for
  \<^verbatim>\<open>null\<close>, \<^verbatim>\<open>undefined\<close> and for the number 0; \<open>falsyNumber\<close> is that test.
\<close>

record UserLocation =
  lat :: real
  lng :: real

record CheckInPosition =
  cp_id :: string
  cp_name :: string
  cp_latitude :: "real option"
  cp_longitude :: "real option"

definition falsyNumber :: "real option \<Rightarrow> bool" where
  "falsyNumber v = (case v of None \<Rightarrow> True | Some x \<Rightarrow> x = 0)"

definition isNearPosition :: "UserLocation option \<Rightarrow> CheckInPosition option \<Rightarrow> bool" where
  "isNearPosition userLocation position =
     (case (userLocation, Option.bind position cp_latitude, Option.bind position cp_longitude) of
        (Some u, Some la, Some lo) \<Rightarrow>
          if falsyNumber (Some la) \<or> falsyNumber (Some lo) then True
          else calculateDistance (lat u) (lng u) la lo \<le> 200
      | _ \<Rightarrow> True)"

section \<open>The check-in page: eligible volunteers and arrival\<close>

text \<open>
  A row of \<^verbatim>\<open>volunteer_signups\<close>. The type \<open>'t\<close> is the type of the
  \<^verbatim>\<open>start_time\<close> column with the order the data service sorts it by.

  The data service is outside the repository; the model takes from it
  \<^item> \<open>table\<close>, the rows of \<^verbatim>\<open>volunteer_signups\<close> in insertion order;
  \<^item> \<open>order\<close>, what the service does for \<^verbatim>\<open>.order('start_time', { ascending: true })\<close>;
  \<^item> \<open>svcError\<close>, the \<^verbatim>\<open>error\<close> of the response (\<open>None\<close> when the call succeeds):
    an instance of \<^verbatim>\<open>Error\<close> with its message, or any other value.

  \<^verbatim>\<open>
  queryFn: async () => {
    if (!positionId) { throw new Error('No position ID provided'); }
    try {
      const { data, error } = await supabase
        .from('volunteer_signups')
        .select('*')
        .eq('position_id', positionId)
        .eq('arrived', false)
        .order('start_time', { ascending: true });
      if (error) { throw error; }
      return data as Volunteer[];
    } catch (err) {
      const error = err instanceof Error ? err
                  : new Error('Unknown error fetching volunteers');
      throw error;
    }
  }
  \<close>

  The error a query ends with is represented by its message.
\<close>

record 't Volunteer =
  vol_id :: string
  position_id :: string
  volunteer_name :: string
  email :: string
  start_time :: 't
  end_time :: 't
  arrived :: bool

datatype thrown = ErrorInstance string | OtherValue

datatype error = NoPositionId | ServiceError string

definition rethrown :: "string \<Rightarrow> thrown \<Rightarrow> error" where
  "rethrown fallback err =
     (case err of
        ErrorInstance msg \<Rightarrow> ServiceError msg
      | OtherValue \<Rightarrow> ServiceError fallback)"

definition volunteersQuery ::
  "('t Volunteer list \<Rightarrow> 't Volunteer list) \<Rightarrow> string option \<Rightarrow> thrown option
     \<Rightarrow> 't Volunteer list \<Rightarrow> error + 't Volunteer list" where
  "volunteersQuery order positionId svcError table =
     (case positionId of
        None \<Rightarrow> Inl NoPositionId
      | Some pid \<Rightarrow>
          if pid = [] then Inl NoPositionId
          else (case svcError of
                  Some e \<Rightarrow> Inl (rethrown ''Unknown error fetching volunteers'' e)
                | None \<Rightarrow>
                    Inr (order (filter (\<lambda>r. arrived r = False)
                                  (filter (\<lambda>r. position_id r = pid) table)))))"

text \<open>
  \<^verbatim>\<open>
  mutationFn: async (volunteerId) => {
    try {
      const { error } = await supabase
        .from('volunteer_signups')
        .update({ arrived: true })
        .eq('id', volunteerId);
      if (error) { throw error; }
    } catch (err) {
      const error = err instanceof Error ? err
                  : new Error('Unknown error checking in volunteer');
      throw error;
    }
  }
  \<close>
\<close>

definition updateArrived :: "string \<Rightarrow> 't Volunteer list \<Rightarrow> 't Volunteer list" where
  "updateArrived volunteerId table =
     map (\<lambda>r. if vol_id r = volunteerId then r\<lparr> arrived := True \<rparr> else r) table"

definition checkInMutation ::
  "thrown option \<Rightarrow> string \<Rightarrow> 't Volunteer list \<Rightarrow> error + 't Volunteer list" where
  "checkInMutation svcError volunteerId table =
     (case svcError of
        Some e \<Rightarrow> Inl (rethrown ''Unknown error checking in volunteer'' e)
      | None \<Rightarrow> Inr (updateArrived volunteerId table))"

section \<open>Saving imported sign-ups (SaveToSupabase)\<close>

text \<open>
  \<^verbatim>\<open>
  const handleSaveToSupabase = async () => {
    if (data.length === 0) {
      setSaveResult({ success: false,
                      message: 'No data to save. Please upload a CSV file first.' });
      return;
    }
    try {
      const volunteerSignups = data.map((item) => ({
        position_id: item.position_ID,
        volunteer_name: item.volunteer_name,
        email: item.volunteer_email,
        start_time: item.start_datetime,
        end_time: item.end_datetime,
        arrived: false
      }));
      const { error } = await supabase.from('volunteer_signups').insert(volunteerSignups);
      if (error) { throw error; }
      setSaveResult({ success: true,
        message: `Successfully saved ${volunteerSignups.length} volunteer records to the database.` });
    } catch (error) {
      setSaveResult({ success: false,
        message: `Error saving to database: ${(error as Error).message}` });
    }
  };
  \<close>

  The state is the list of records the service has accepted for insertion, in order; the
  function returns it together with the \<^verbatim>\<open>saveResult\<close> it sets. A failed insert
  leaves the table as it was.
\<close>

record StructuredSignUpData =
  sd_id :: int
  position_ID :: string
  sd_volunteer_name :: string
  volunteer_email :: string
  start_date :: string
  start_datetime :: string
  end_datetime :: string
  sd_arrived :: string

record VolunteerSignup =
  ins_position_id :: string
  ins_volunteer_name :: string
  ins_email :: string
  ins_start_time :: string
  ins_end_time :: string
  ins_arrived :: bool

record SaveResult =
  success :: bool
  save_message :: string

definition toVolunteerSignup :: "StructuredSignUpData \<Rightarrow> VolunteerSignup" where
  "toVolunteerSignup item =
     \<lparr> ins_position_id = position_ID item,
       ins_volunteer_name = sd_volunteer_name item,
       ins_email = volunteer_email item,
       ins_start_time = start_datetime item,
       ins_end_time = end_datetime item,
       ins_arrived = False \<rparr>"

definition handleSaveToSupabase ::
  "string option \<Rightarrow> StructuredSignUpData list \<Rightarrow> VolunteerSignup list
     \<Rightarrow> VolunteerSignup list \<times> SaveResult" where
  "handleSaveToSupabase svcError data table =
     (if length data = 0
      then (table, \<lparr> success = False,
                     save_message = ''No data to save. Please upload a CSV file first.'' \<rparr>)
      else
        (let volunteerSignups = map toVolunteerSignup data in
         case svcError of
           Some e \<Rightarrow>
             (table, \<lparr> success = False,
                       save_message = ''Error saving to database: '' @ e \<rparr>)
         | None \<Rightarrow>
             (table @ volunteerSignups,
              \<lparr> success = True,
                save_message = ''Successfully saved '' @ digits (length volunteerSignups)
                               @ '' volunteer records to the database.'' \<rparr>)))"

section \<open>Properties of the feed\<close>

lemma take_Cons_take: "take n (x # take n ys) = take n (x # ys)"
  by (cases n) simp_all

lemma addIssues_snoc: "addIssues feed (news @ [x]) = addIssue x (addIssues feed news)"
  by (simp add: addIssues_def)

lemma addIssues_take:
  "length feed \<le> 100 \<Longrightarrow> addIssues feed news = take 100 (rev news @ feed)"
proof (induction news rule: rev_induct)
  case Nil
  then show ?case by (simp add: addIssues_def)
next
  case (snoc x xs)
  then have "addIssues feed xs = take 100 (rev xs @ feed)"
    by simp
  then have "addIssues feed (xs @ [x]) = take 100 (x # take 100 (rev xs @ feed))"
    by (simp only: addIssues_snoc addIssue_def)
  also have "\<dots> = take 100 (x # rev xs @ feed)"
    by (rule take_Cons_take)
  finally show ?case by simp
qed

lemma addIssues_empty_feed: "addIssues [] news = take 100 (rev news)"
  using addIssues_take [of "[]" news] by simp

text \<open>
  C3. Starting from the empty feed, after any sequence of insertions \<open>news\<close> (in
  insertion order) the feed holds the last 100 insertions, newest first: it is the first
  100 elements of the reversed insertion sequence. So it never holds more than 100
  entries, the entries dropped are the earliest inserted ones, and the retained ones
  stay in most-recent-first order.
\<close>

theorem feed_bounded_newest_first:
  "length (addIssues [] news) \<le> 100
   \<and> addIssues [] news = take 100 (rev news)
   \<and> addIssues [] news = rev (drop (length news - 100) news)"
proof -
  have a: "addIssues [] news = take 100 (rev news)"
    by (rule addIssues_empty_feed)
  have b: "take 100 (rev news) = rev (drop (length news - 100) news)"
    by (simp add: take_rev)
  show ?thesis
    using a b by simp
qed

section \<open>Properties of the staffing monitor\<close>

lemma forEachPosition_addIssues:
  "forEachPosition fresh k ps feed =
     addIssues feed (map (\<lambda>(i, p). understaffedIssue (fresh i) p)
        (enumerate k (filter (\<lambda>p. filled p < needed p) ps)))"
  by (induction ps arbitrary: k feed) (simp_all add: addIssues_def)

text \<open>
  C4. After one run of the timer callback over the loaded positions \<open>ps\<close>, a feed
  within its bound of 100 holds the issues of this run in front of its former entries,
  newest first, cut to 100 entries. The issues of the run are one for each position with
  \<open>filled < needed\<close>, in the order of \<open>ps\<close>, and none for a position with
  \<open>filled \<ge> needed\<close> (the filter drops it): as many issues as there are understaffed
  positions. They reach the feed through \<open>addIssue\<close>, one call each. The issue built for
  a position \<open>p\<close> is of type warning and its position reference carries the id of \<open>p\<close>.
\<close>

theorem staffing_tick_one_warning_each:
  assumes "length feed \<le> 100"
  shows "staffingInterval fresh (Some ps) feed =
           take 100 (rev (map (\<lambda>(i, p). understaffedIssue (fresh i) p)
                            (enumerate 0 (filter (\<lambda>p. filled p < needed p) ps))) @ feed)
         \<and> staffingInterval fresh (Some ps) feed =
             addIssues feed (map (\<lambda>(i, p). understaffedIssue (fresh i) p)
                (enumerate 0 (filter (\<lambda>p. filled p < needed p) ps)))
         \<and> length (map (\<lambda>(i, p). understaffedIssue (fresh i) p)
                (enumerate 0 (filter (\<lambda>p. filled p < needed p) ps)))
             = length (filter (\<lambda>p. filled p < needed p) ps)
         \<and> issue_type (understaffedIssue stamp p) = IssueWarning
         \<and> map_option ip_id (issue_position (understaffedIssue stamp p)) = Some (Some (pos_id p))"
proof -
  let ?issues = "map (\<lambda>(i, p). understaffedIssue (fresh i) p)
                   (enumerate 0 (filter (\<lambda>p. filled p < needed p) ps))"
  have run: "staffingInterval fresh (Some ps) feed = addIssues feed ?issues"
    by (simp add: staffingInterval_def forEachPosition_addIssues)
  have "addIssues feed ?issues = take 100 (rev ?issues @ feed)"
    using assms by (rule addIssues_take)
  then have held: "staffingInterval fresh (Some ps) feed = take 100 (rev ?issues @ feed)"
    using run by simp
  have count: "length ?issues = length (filter (\<lambda>p. filled p < needed p) ps)"
    by simp
  have kind: "issue_type (understaffedIssue stamp p) = IssueWarning"
    by (simp add: understaffedIssue_def)
  have ref: "map_option ip_id (issue_position (understaffedIssue stamp p)) = Some (Some (pos_id p))"
    by (simp add: understaffedIssue_def)
  show ?thesis
    using held run count kind ref by (intro conjI)
qed

text \<open>
  The scenario of the specification, "Water Station" with \<open>needed = 3\<close> and
  \<open>filled = 1\<close>, next to a fully staffed position, on a feed that already holds an entry:
  the run puts one warning, for "Water Station", in front of that entry.
\<close>

theorem staffing_tick_one_warning_each_witness:
  "length [\<lparr> issue_id = ''u0'', issue_type = IssueInfo, message = ''earlier'',
              timestamp = ''t0'', issue_position = None \<rparr>] \<le> 100
   \<and> staffingInterval (\<lambda>k. (''u'', ''t''))
     (Some [\<lparr> pos_id = ''p1'', pos_name = ''Water Station'', needed = 3, filled = 1,
              latitude = 0, longitude = 0,
              pos_event = \<lparr> event_id = ''e1'', event_name = ''5K Run'',
                            event_date = ''d'', event_time = ''t'' \<rparr> \<rparr>,
            \<lparr> pos_id = ''p2'', pos_name = ''Finish Line'', needed = 2, filled = 2,
              latitude = 0, longitude = 0,
              pos_event = \<lparr> event_id = ''e1'', event_name = ''5K Run'',
                            event_date = ''d'', event_time = ''t'' \<rparr> \<rparr>])
     [\<lparr> issue_id = ''u0'', issue_type = IssueInfo, message = ''earlier'',
        timestamp = ''t0'', issue_position = None \<rparr>]
   = [\<lparr> issue_id = ''u'', issue_type = IssueWarning,
        message = ''Position Water Station is understaffed (1/3)'',
        timestamp = ''t'',
        issue_position = Some \<lparr> ip_id = Some ''p1'', ip_name = ''Water Station'',
                                 ip_event_id = Some ''e1'', ip_event_name = ''5K Run'' \<rparr> \<rparr>,
      \<lparr> issue_id = ''u0'', issue_type = IssueInfo, message = ''earlier'',
        timestamp = ''t0'', issue_position = None \<rparr>]"
  using staffing_tick_one_warning_each
    [of "[\<lparr> issue_id = ''u0'', issue_type = IssueInfo, message = ''earlier'',
            timestamp = ''t0'', issue_position = None \<rparr>]"
        "\<lambda>k. (''u'', ''t'')"
        "[\<lparr> pos_id = ''p1'', pos_name = ''Water Station'', needed = 3, filled = 1,
            latitude = 0, longitude = 0,
            pos_event = \<lparr> event_id = ''e1'', event_name = ''5K Run'',
                          event_date = ''d'', event_time = ''t'' \<rparr> \<rparr>,
          \<lparr> pos_id = ''p2'', pos_name = ''Finish Line'', needed = 2, filled = 2,
            latitude = 0, longitude = 0,
            pos_event = \<lparr> event_id = ''e1'', event_name = ''5K Run'',
                          event_date = ''d'', event_time = ''t'' \<rparr> \<rparr>]"]
  by (simp add: understaffedIssue_def number_to_string_def enumerate_eq_zip)

section \<open>Properties of the filtered view\<close>

text \<open>
  C5, as the code has it. With no selection the view is the whole feed. With a
  selection that names a loaded event \<open>e\<close>, the view keeps exactly the issues that carry
  a position reference whose event name equals the name of \<open>e\<close>; an issue with no
  position reference is hidden. Only when the selection names no loaded event are the
  issues without a position reference the ones shown.
\<close>

theorem issues_view_by_event_name:
  "issuesView selectedEventId events issues =
     (case selectedEventId of
        None \<Rightarrow> issues
      | Some sel \<Rightarrow>
          if sel = [] then issues
          else (case find (\<lambda>e. event_id e = sel) events of
                  Some e \<Rightarrow> filter (\<lambda>i. \<exists>p. issue_position i = Some p
                                           \<and> ip_event_name p = event_name e) issues
                | None \<Rightarrow> filter (\<lambda>i. issue_position i = None) issues))"
  by (auto simp: issuesView_def split: option.splits intro!: filter_cong)

text \<open>
  C5 as stated fails: with the event \<open>e1\<close> selected and loaded, a feed holding one issue
  without a position reference has an empty view.
\<close>

theorem issues_view_hides_unreferenced_counterexample:
  "issue_position \<lparr> issue_id = ''i1'', issue_type = IssueInfo, message = ''m'',
                      timestamp = ''t'', issue_position = None \<rparr> = None
   \<and> issuesView (Some ''e1'')
        [\<lparr> event_id = ''e1'', event_name = ''5K Run'', event_date = ''2024-05-01'',
            event_time = ''09:00'' \<rparr>]
        [\<lparr> issue_id = ''i1'', issue_type = IssueInfo, message = ''m'',
            timestamp = ''t'', issue_position = None \<rparr>] = []"
  by (simp add: issuesView_def)

section \<open>Properties of the signup notification\<close>




text \<open>
  While an event is selected the test \<^verbatim>\<open>position?.event?.id === selectedEventId\<close> reads
  a field the lookup never selects, so no notification reaches the feed.
\<close>

lemma signup_with_filter_never_added:
  "\<not> noSelection selectedEventId \<Longrightarrow>
     onSignupChange selectedEventId lookup stamp payload feed = feed"
  by (auto simp: onSignupChange_def noSelection_def lookupEventId_def Let_def split: option.splits)

section \<open>Properties of the distance\<close>

lemma sin_half_sq: "sin (x / 2) * sin (x / 2) = (1 - cos x) / (2::real)"
proof -
  have "cos x = cos (2 * (x / 2))" by simp
  also have "\<dots> = 1 - 2 * (sin (x / 2))\<^sup>2" by (rule cos_double_sin)
  finally show ?thesis by (simp add: power2_eq_square)
qed

lemma haversine_eq:
  fixes p1 p2 dl :: real
  shows "sin ((p2 - p1) / 2) * sin ((p2 - p1) / 2) + cos p1 * cos p2 * sin (dl / 2) * sin (dl / 2)
     = (1 - (sin p1 * sin p2 + cos p1 * cos p2 * cos dl)) / 2"
proof -
  have "sin ((p2 - p1) / 2) * sin ((p2 - p1) / 2) + cos p1 * cos p2 * sin (dl / 2) * sin (dl / 2)
      = sin ((p2 - p1) / 2) * sin ((p2 - p1) / 2) + cos p1 * cos p2 * (sin (dl / 2) * sin (dl / 2))"
    by simp
  also have "\<dots> = (1 - cos (p2 - p1)) / 2 + cos p1 * cos p2 * ((1 - cos dl) / 2)"
    by (simp only: sin_half_sq)
  also have "\<dots> = (1 - (sin p1 * sin p2 + cos p1 * cos p2 * cos dl)) / 2"
    by (simp add: cos_diff field_simps)
  finally show ?thesis .
qed

lemma abs_weighted:
  fixes w c :: real
  assumes "0 \<le> w" and "\<bar>c\<bar> \<le> 1"
  shows "\<bar>w * c\<bar> \<le> w"
proof -
  have "\<bar>w * c\<bar> = w * \<bar>c\<bar>" using assms(1) by (simp add: abs_mult)
  also have "\<dots> \<le> w * 1" using assms by (intro mult_left_mono) simp_all
  finally show ?thesis by simp
qed

lemma central_angle_cosine_bounds:
  fixes p1 p2 dl :: real
  shows "\<bar>sin p1 * sin p2 + cos p1 * cos p2 * cos dl\<bar> \<le> 1"
proof -
  let ?t = "cos dl"
  have t: "-1 \<le> ?t" "?t \<le> 1" by simp_all
  have "0 \<le> 1 + ?t" using cos_ge_minus_one [of dl] by linarith
  then have w1: "0 \<le> (1 + ?t) / 2" by simp
  have "0 \<le> 1 - ?t" using cos_le_one [of dl] by linarith
  then have w2: "0 \<le> (1 - ?t) / 2" by simp
  have e: "sin p1 * sin p2 + cos p1 * cos p2 * ?t
        = (1 + ?t) / 2 * cos (p1 - p2) - (1 - ?t) / 2 * cos (p1 + p2)"
    by (simp add: cos_diff cos_add field_simps)
  have c1: "\<bar>cos (p1 - p2)\<bar> \<le> 1" and c2: "\<bar>cos (p1 + p2)\<bar> \<le> 1" by simp_all
  have "\<bar>(1 + ?t) / 2 * cos (p1 - p2)\<bar> \<le> (1 + ?t) / 2"
    using w1 c1 by (rule abs_weighted)
  moreover have "\<bar>(1 - ?t) / 2 * cos (p1 + p2)\<bar> \<le> (1 - ?t) / 2"
    using w2 c2 by (rule abs_weighted)
  ultimately have "\<bar>(1 + ?t) / 2 * cos (p1 - p2) - (1 - ?t) / 2 * cos (p1 + p2)\<bar>
      \<le> (1 + ?t) / 2 + (1 - ?t) / 2"
    by linarith
  also have "(1 + ?t) / 2 + (1 - ?t) / 2 = 1"
    by (simp add: field_simps)
  finally have "\<bar>(1 + ?t) / 2 * cos (p1 - p2) - (1 - ?t) / 2 * cos (p1 + p2)\<bar> \<le> 1" .
  then show ?thesis by (simp only: e)
qed


lemma haversine_unit_interval:
  fixes p1 p2 dl :: real
  shows "0 \<le> sin ((p2 - p1) / 2) * sin ((p2 - p1) / 2) + cos p1 * cos p2 * sin (dl / 2) * sin (dl / 2)
       \<and> sin ((p2 - p1) / 2) * sin ((p2 - p1) / 2) + cos p1 * cos p2 * sin (dl / 2) * sin (dl / 2) \<le> 1"
proof -
  define e where "e = sin p1 * sin p2 + cos p1 * cos p2 * cos dl"
  have "\<bar>e\<bar> \<le> 1" unfolding e_def by (rule central_angle_cosine_bounds)
  then have "0 \<le> (1 - e) / 2 \<and> (1 - e) / 2 \<le> 1" by (simp add: abs_le_iff)
  then show ?thesis by (simp only: haversine_eq e_def)
qed

text \<open>
  In exact arithmetic the two square roots of \<open>calculateDistance\<close> are taken of numbers in
  the unit interval, for all coordinates, so \<open>sqrt\<close> is the root \<^verbatim>\<open>Math.sqrt\<close> rounds.
  In the code's doubles the bound \<open>a \<le> 1\<close> can fail by rounding; see the note at
  \<open>calculateDistance\<close>.
\<close>

lemma calculateDistance_radicand:
  "0 \<le> sin ((lat2 - lat1) * pi / 180 / 2) * sin ((lat2 - lat1) * pi / 180 / 2)
        + cos (lat1 * pi / 180) * cos (lat2 * pi / 180)
          * sin ((lon2 - lon1) * pi / 180 / 2) * sin ((lon2 - lon1) * pi / 180 / 2)
   \<and> sin ((lat2 - lat1) * pi / 180 / 2) * sin ((lat2 - lat1) * pi / 180 / 2)
        + cos (lat1 * pi / 180) * cos (lat2 * pi / 180)
          * sin ((lon2 - lon1) * pi / 180 / 2) * sin ((lon2 - lon1) * pi / 180 / 2) \<le> 1"
proof -
  have eq: "(lat2 - lat1) * pi / 180 / 2 = (lat2 * pi / 180 - lat1 * pi / 180) / 2"
    by (simp add: field_simps)
  show ?thesis
    unfolding eq by (rule haversine_unit_interval)
qed

text \<open>
  For a point and its antipode the exact value of \<^verbatim>\<open>a\<close> is 1, the end of that interval:
  \<^verbatim>\<open>1-a\<close> is exactly 0, and a rounding of \<^verbatim>\<open>a\<close> upwards makes it negative.
\<close>

lemma calculateDistance_radicand_antipodes:
  "sin ((- lat1 - lat1) * pi / 180 / 2) * sin ((- lat1 - lat1) * pi / 180 / 2)
     + cos (lat1 * pi / 180) * cos (- lat1 * pi / 180)
       * sin ((lon1 - 180 - lon1) * pi / 180 / 2) * sin ((lon1 - 180 - lon1) * pi / 180 / 2) = 1"
proof -
  have l: "(- lat1 - lat1) * pi / 180 / 2 = - (lat1 * pi / 180)"
    by (simp add: field_simps)
  have m: "(lon1 - 180 - lon1) * pi / 180 / 2 = - (pi / 2)"
    by (simp add: field_simps)
  have n: "- lat1 * pi / 180 = - (lat1 * pi / 180)"
    by simp
  have "sin (lat1 * pi / 180) * sin (lat1 * pi / 180)
          + cos (lat1 * pi / 180) * cos (lat1 * pi / 180) = 1"
    using sin_cos_squared_add [of "lat1 * pi / 180"] by (simp add: power2_eq_square)
  then show ?thesis
    by (simp only: l m n sin_minus cos_minus sin_pi_half)
qed

section \<open>Properties of the proximity gate\<close>

text \<open>
  C8. When the user location is absent, or the position is absent, or the position lacks
  a latitude or a longitude, the gate answers true. The radius is the constant 200 of
  the code; no input can change it.
\<close>

theorem proximity_gate_missing_location:
  assumes "userLocation = None \<or> position = None
           \<or> (\<exists>p. position = Some p \<and> (cp_latitude p = None \<or> cp_longitude p = None))"
  shows "isNearPosition userLocation position = True"
  using assms
  by (auto simp: isNearPosition_def split: option.splits)

theorem proximity_gate_missing_location_witness:
  "isNearPosition None (Some \<lparr> cp_id = ''p1'', cp_name = ''Gate'', cp_latitude = Some 48, cp_longitude = Some 11 \<rparr>) = True
   \<and> isNearPosition (Some \<lparr> lat = 48, lng = 11 \<rparr>) (Some \<lparr> cp_id = ''p1'', cp_name = ''Gate'', cp_latitude = None, cp_longitude = Some 11 \<rparr>) = True"
  using proximity_gate_missing_location [of None "Some \<lparr> cp_id = ''p1'', cp_name = ''Gate'', cp_latitude = Some 48, cp_longitude = Some 11 \<rparr>"]
    proximity_gate_missing_location [of "Some \<lparr> lat = 48, lng = 11 \<rparr>" "Some \<lparr> cp_id = ''p1'', cp_name = ''Gate'', cp_latitude = None, cp_longitude = Some 11 \<rparr>"]
  by simp

text \<open>
  A coordinate equal to 0 passes the test \<^verbatim>\<open>!position?.latitude\<close> as well, so the gate
  answers true whatever the distance is.
\<close>

lemma isNearPosition_zero_coordinate:
  "cp_latitude p = Some 0 \<or> cp_longitude p = Some 0 \<Longrightarrow> isNearPosition userLocation (Some p)"
  by (auto simp: isNearPosition_def falsyNumber_def split: option.splits)

text \<open>
  With both coordinates of the position different from 0 the gate is the comparison of
  the distance with 200.
\<close>

lemma isNearPosition_nonzero:
  "cp_latitude p = Some la \<Longrightarrow> cp_longitude p = Some lo \<Longrightarrow> la \<noteq> 0 \<Longrightarrow> lo \<noteq> 0 \<Longrightarrow>
     isNearPosition (Some u) (Some p) = (calculateDistance (lat u) (lng u) la lo \<le> 200)"
  by (simp add: isNearPosition_def falsyNumber_def)

lemma distance_antimeridian: "calculateDistance 0 0 0 180 = 6371000 * pi"
  by (simp add: calculateDistance_def atan2_def)

text \<open>
  C1 at a failing input. The user stands at (0, 0); the position lies on the equator at
  longitude 180, so both locations are present. The distance is half the circumference
  of the Earth, far more than 200 m, and the gate still answers true, because the
  latitude 0 is taken for a missing one.
\<close>

theorem proximity_gate_zero_latitude:
  "isNearPosition (Some \<lparr> lat = 0, lng = 0 \<rparr>)
     (Some \<lparr> cp_id = ''p1'', cp_name = ''Water Station'',
             cp_latitude = Some 0, cp_longitude = Some 180 \<rparr>)
   \<and> calculateDistance 0 0 0 180 = 6371000 * pi
   \<and> \<not> calculateDistance 0 0 0 180 \<le> 200"
proof -
  have "(200::real) < 6371000 * 2" by simp
  also have "\<dots> \<le> 6371000 * pi" using pi_ge_two by simp
  finally have "\<not> calculateDistance 0 0 0 180 \<le> 200"
    by (simp add: distance_antimeridian)
  then show ?thesis
    by (simp add: isNearPosition_def falsyNumber_def distance_antimeridian)
qed

section \<open>Properties of the eligible-volunteers query\<close>

text \<open>
  C7, as the code has it. The query names one sort key, \<^verbatim>\<open>start_time\<close>. For a data
  service whose ordering step returns a permutation of its input sorted by that key, the
  query with a position id returns exactly the rows of that position with
  \<open>arrived = False\<close> (as a multiset), in ascending order of \<open>start_time\<close>. Nothing is
  said about the order of rows with equal start times.
\<close>

theorem volunteers_query_sorted_eligible:
  fixes order :: "('t::linorder) Volunteer list \<Rightarrow> 't Volunteer list"
  assumes perm: "\<And>rows. mset (order rows) = mset rows"
    and srt: "\<And>rows. sorted (map start_time (order rows))"
    and pid: "pid \<noteq> []"
  shows "\<exists>vs. volunteersQuery order (Some pid) None table = Inr vs
           \<and> mset vs = mset (filter (\<lambda>r. position_id r = pid \<and> \<not> arrived r) table)
           \<and> sorted (map start_time vs)"
proof -
  let ?sel = "filter (\<lambda>r. arrived r = False) (filter (\<lambda>r. position_id r = pid) table)"
  have q: "volunteersQuery order (Some pid) None table = Inr (order ?sel)"
    using pid by (simp add: volunteersQuery_def)
  have "?sel = filter (\<lambda>r. position_id r = pid \<and> \<not> arrived r) table"
    by (simp add: conj_commute)
  then have "mset (order ?sel) = mset (filter (\<lambda>r. position_id r = pid \<and> \<not> arrived r) table)"
    using perm [of ?sel] by simp
  moreover have "sorted (map start_time (order ?sel))"
    by (rule srt)
  ultimately show ?thesis
    using q by blast
qed

theorem volunteers_query_sorted_eligible_witness:
  "\<exists>vs. volunteersQuery (sort_key start_time) (Some ''p1'') None
      [\<lparr> vol_id = ''a'', position_id = ''p1'', volunteer_name = ''Ada'', email = ''a@x'',
          start_time = (9::nat), end_time = 10, arrived = False \<rparr>,
       \<lparr> vol_id = ''b'', position_id = ''p1'', volunteer_name = ''Bob'', email = ''b@x'',
          start_time = 8, end_time = 10, arrived = False \<rparr>] = Inr vs
     \<and> mset vs = mset (filter (\<lambda>r. position_id r = ''p1'' \<and> \<not> arrived r)
      [\<lparr> vol_id = ''a'', position_id = ''p1'', volunteer_name = ''Ada'', email = ''a@x'',
          start_time = (9::nat), end_time = 10, arrived = False \<rparr>,
       \<lparr> vol_id = ''b'', position_id = ''p1'', volunteer_name = ''Bob'', email = ''b@x'',
          start_time = 8, end_time = 10, arrived = False \<rparr>])
     \<and> sorted (map start_time vs)"
proof (rule volunteers_query_sorted_eligible)
  show "mset (sort_key start_time rows) = mset rows" for rows :: "nat Volunteer list"
    by simp
  show "sorted (map start_time (sort_key start_time rows))" for rows :: "nat Volunteer list"
    by simp
  show "''p1'' \<noteq> []" by simp
qed

text \<open>
  C7 as stated fails on the tie-breaking: the ordering step below meets the query (a
  permutation, sorted by \<open>start_time\<close>), and returns two rows with the same start
  time in the reverse of their insertion order and of the order of their ids. A stable
  sort would keep them as inserted.
\<close>

theorem volunteers_query_tie_order_counterexample:
  "(\<forall>rows :: nat Volunteer list.
       mset (sort_key start_time (rev rows)) = mset rows
       \<and> sorted (map start_time (sort_key start_time (rev rows))))
   \<and> volunteersQuery (\<lambda>rows. sort_key start_time (rev rows)) (Some ''p1'') None
      [\<lparr> vol_id = ''a'', position_id = ''p1'', volunteer_name = ''Ada'', email = ''a@x'',
          start_time = (9::nat), end_time = 10, arrived = False \<rparr>,
       \<lparr> vol_id = ''b'', position_id = ''p1'', volunteer_name = ''Bob'', email = ''b@x'',
          start_time = 9, end_time = 10, arrived = False \<rparr>]
     = Inr
      [\<lparr> vol_id = ''b'', position_id = ''p1'', volunteer_name = ''Bob'', email = ''b@x'',
          start_time = 9, end_time = 10, arrived = False \<rparr>,
       \<lparr> vol_id = ''a'', position_id = ''p1'', volunteer_name = ''Ada'', email = ''a@x'',
          start_time = 9, end_time = 10, arrived = False \<rparr>]
   \<and> sort_key start_time
      [\<lparr> vol_id = ''a'', position_id = ''p1'', volunteer_name = ''Ada'', email = ''a@x'',
          start_time = (9::nat), end_time = 10, arrived = False \<rparr>,
       \<lparr> vol_id = ''b'', position_id = ''p1'', volunteer_name = ''Bob'', email = ''b@x'',
          start_time = 9, end_time = 10, arrived = False \<rparr>]
     = [\<lparr> vol_id = ''a'', position_id = ''p1'', volunteer_name = ''Ada'', email = ''a@x'',
          start_time = 9, end_time = 10, arrived = False \<rparr>,
       \<lparr> vol_id = ''b'', position_id = ''p1'', volunteer_name = ''Bob'', email = ''b@x'',
          start_time = 9, end_time = 10, arrived = False \<rparr>]"
  by (simp add: volunteersQuery_def)

section \<open>Properties of the arrival update\<close>

lemma updateArrived_row:
  assumes "r \<in> set (updateArrived y table)"
  shows "\<exists>r0 \<in> set table. vol_id r = vol_id r0
            \<and> (arrived r0 \<longrightarrow> arrived r) \<and> (vol_id r0 = y \<longrightarrow> arrived r)"
proof -
  from assms obtain r0 where r0: "r0 \<in> set table"
      and r: "r = (if vol_id r0 = y then r0\<lparr> arrived := True \<rparr> else r0)"
    unfolding updateArrived_def set_map by (rule imageE)
  have "vol_id r = vol_id r0 \<and> (arrived r0 \<longrightarrow> arrived r) \<and> (vol_id r0 = y \<longrightarrow> arrived r)"
    using r by simp
  then show ?thesis using r0 by (rule_tac x = r0 in bexI)
qed

lemma arrived_after_update:
  assumes "r \<in> set (updateArrived x table)" and "vol_id r = x"
  shows "arrived r"
  using updateArrived_row [OF assms(1)] assms(2) by auto

lemma arrived_kept_by_update:
  assumes inv: "\<forall>r \<in> set table. vol_id r = x \<longrightarrow> arrived r"
  shows "\<forall>r \<in> set (updateArrived y table). vol_id r = x \<longrightarrow> arrived r"
proof (intro ballI impI)
  fix r
  assume r: "r \<in> set (updateArrived y table)" and x: "vol_id r = x"
  show "arrived r"
    using updateArrived_row [OF r] inv x by auto
qed

lemma arrived_kept_by_updates:
  "\<forall>r \<in> set table. vol_id r = x \<longrightarrow> arrived r \<Longrightarrow>
     \<forall>r \<in> set (foldl (\<lambda>t y. updateArrived y t) table ys). vol_id r = x \<longrightarrow> arrived r"
proof (induction ys arbitrary: table)
  case Nil
  then show ?case by simp
next
  case (Cons y ys)
  have "\<forall>r \<in> set (updateArrived y table). vol_id r = x \<longrightarrow> arrived r"
    using Cons.prems by (rule arrived_kept_by_update)
  then have "\<forall>r \<in> set (foldl (\<lambda>t y. updateArrived y t) (updateArrived y table) ys).
               vol_id r = x \<longrightarrow> arrived r"
    by (rule Cons.IH)
  then show ?case by (simp only: foldl_Cons)
qed

lemma query_rows_not_arrived:
  assumes sub: "\<And>rows. set (order rows) \<subseteq> set rows"
    and q: "volunteersQuery order positionId svcError table = Inr vs"
    and v: "v \<in> set vs"
  shows "v \<in> set table \<and> \<not> arrived v"
proof -
  have "\<exists>pid. vs = order (filter (\<lambda>r. arrived r = False) (filter (\<lambda>r. position_id r = pid) table))"
    using q by (auto simp: volunteersQuery_def split: option.splits if_splits)
  then obtain pid where vs: "vs = order (filter (\<lambda>r. arrived r = False) (filter (\<lambda>r. position_id r = pid) table))"
    by (rule exE)
  have "set vs \<subseteq> set (filter (\<lambda>r. arrived r = False) (filter (\<lambda>r. position_id r = pid) table))"
    unfolding vs by (rule sub)
  then have "v \<in> set (filter (\<lambda>r. arrived r = False) (filter (\<lambda>r. position_id r = pid) table))"
    using v by (rule subsetD)
  then show ?thesis by simp
qed

text \<open>
  C2. After a successful arrival update for the signup id \<open>x\<close>, a fetch of the eligible
  volunteers, for any position, directly afterwards or after any further arrival updates
  \<open>later\<close>, returns no row with id \<open>x\<close>. The data service's ordering step is only
  assumed to return rows it was given.
\<close>

theorem checked_in_volunteer_not_refetched:
  assumes sub: "\<And>rows. set (order rows) \<subseteq> set rows"
    and upd: "checkInMutation None x table = Inr table'"
    and q: "volunteersQuery order positionId svcError
              (foldl (\<lambda>t y. updateArrived y t) table' later) = Inr vs"
  shows "x \<notin> vol_id ` set vs"
proof
  assume "x \<in> vol_id ` set vs"
  then obtain v where vx: "x = vol_id v" and v: "v \<in> set vs"
    by (rule imageE)
  have t': "table' = updateArrived x table"
    using upd by (simp add: checkInMutation_def)
  have "\<forall>r \<in> set table'. vol_id r = x \<longrightarrow> arrived r"
    unfolding t' by (intro ballI impI) (rule arrived_after_update)
  then have inv: "\<forall>r \<in> set (foldl (\<lambda>t y. updateArrived y t) table' later). vol_id r = x \<longrightarrow> arrived r"
    by (rule arrived_kept_by_updates)
  have "v \<in> set (foldl (\<lambda>t y. updateArrived y t) table' later) \<and> \<not> arrived v"
    using sub q v by (rule query_rows_not_arrived)
  then show False
    using inv vx by auto
qed

theorem checked_in_volunteer_not_refetched_witness:
  "checkInMutation None ''a''
      [\<lparr> vol_id = ''a'', position_id = ''p1'', volunteer_name = ''Ada'', email = ''a@x'',
          start_time = (9::nat), end_time = 10, arrived = False \<rparr>,
       \<lparr> vol_id = ''b'', position_id = ''p1'', volunteer_name = ''Bob'', email = ''b@x'',
          start_time = 8, end_time = 10, arrived = False \<rparr>]
     = Inr
      [\<lparr> vol_id = ''a'', position_id = ''p1'', volunteer_name = ''Ada'', email = ''a@x'',
          start_time = 9, end_time = 10, arrived = True \<rparr>,
       \<lparr> vol_id = ''b'', position_id = ''p1'', volunteer_name = ''Bob'', email = ''b@x'',
          start_time = 8, end_time = 10, arrived = False \<rparr>]
   \<and> volunteersQuery (sort_key start_time) (Some ''p1'') None
      (foldl (\<lambda>t y. updateArrived y t)
        [\<lparr> vol_id = ''a'', position_id = ''p1'', volunteer_name = ''Ada'', email = ''a@x'',
            start_time = (9::nat), end_time = 10, arrived = True \<rparr>,
         \<lparr> vol_id = ''b'', position_id = ''p1'', volunteer_name = ''Bob'', email = ''b@x'',
            start_time = 8, end_time = 10, arrived = False \<rparr>] [])
     = Inr
        [\<lparr> vol_id = ''b'', position_id = ''p1'', volunteer_name = ''Bob'', email = ''b@x'',
            start_time = 8, end_time = 10, arrived = False \<rparr>]
   \<and> ''a'' \<notin> vol_id ` set
        [\<lparr> vol_id = ''b'', position_id = ''p1'', volunteer_name = ''Bob'', email = ''b@x'',
            start_time = (8::nat), end_time = 10, arrived = False \<rparr>]"
proof -
  let ?a = "\<lparr> vol_id = ''a'', position_id = ''p1'', volunteer_name = ''Ada'', email = ''a@x'',
          start_time = (9::nat), end_time = 10, arrived = False \<rparr>"
  let ?a' = "\<lparr> vol_id = ''a'', position_id = ''p1'', volunteer_name = ''Ada'', email = ''a@x'',
          start_time = (9::nat), end_time = 10, arrived = True \<rparr>"
  let ?b = "\<lparr> vol_id = ''b'', position_id = ''p1'', volunteer_name = ''Bob'', email = ''b@x'',
          start_time = (8::nat), end_time = 10, arrived = False \<rparr>"
  have s: "set (sort_key start_time rows) \<subseteq> set rows" for rows :: "nat Volunteer list"
    by simp
  have u: "checkInMutation None ''a'' [?a, ?b] = Inr [?a', ?b]"
    by (simp add: checkInMutation_def updateArrived_def)
  have q: "volunteersQuery (sort_key start_time) (Some ''p1'') None
             (foldl (\<lambda>t y. updateArrived y t) [?a', ?b] []) = Inr [?b]"
    by (simp add: volunteersQuery_def)
  have "''a'' \<notin> vol_id ` set [?b]"
    using s u q by (rule checked_in_volunteer_not_refetched)
  then show ?thesis
    using u q by (simp only: simp_thms)
qed

section \<open>Properties of the import\<close>

text \<open>
  C10. For a non-empty dataset and a successful insert, the records added to the table
  are the images of the rows, one per row and in order: as many as there are rows, each
  with \<open>arrived = False\<close>, each with the position id and the volunteer name of its
  row.
\<close>

theorem save_inserts_not_arrived:
  assumes "data \<noteq> []"
  shows "fst (handleSaveToSupabase None data table) = table @ map toVolunteerSignup data
         \<and> success (snd (handleSaveToSupabase None data table))
         \<and> length (map toVolunteerSignup data) = length data
         \<and> list_all (\<lambda>r. ins_arrived r = False) (map toVolunteerSignup data)
         \<and> map ins_position_id (map toVolunteerSignup data) = map position_ID data
         \<and> map ins_volunteer_name (map toVolunteerSignup data) = map sd_volunteer_name data"
proof -
  have "handleSaveToSupabase None data table
          = (table @ map toVolunteerSignup data,
             \<lparr> success = True,
               save_message = ''Successfully saved '' @ digits (length (map toVolunteerSignup data))
                              @ '' volunteer records to the database.'' \<rparr>)"
    using assms by (simp add: handleSaveToSupabase_def Let_def)
  then have "fst (handleSaveToSupabase None data table) = table @ map toVolunteerSignup data"
    and "success (snd (handleSaveToSupabase None data table))"
    by simp_all
  moreover have "list_all (\<lambda>r. ins_arrived r = False) (map toVolunteerSignup data)"
    by (simp add: list_all_iff toVolunteerSignup_def)
  moreover have "map ins_position_id (map toVolunteerSignup data) = map position_ID data"
    by (simp add: toVolunteerSignup_def)
  moreover have "map ins_volunteer_name (map toVolunteerSignup data) = map sd_volunteer_name data"
    by (simp add: toVolunteerSignup_def)
  ultimately show ?thesis by simp
qed

theorem save_inserts_not_arrived_witness:
  "[\<lparr> sd_id = 1, position_ID = ''p1'', sd_volunteer_name = ''Ada Lovelace'',
       volunteer_email = ''ada@example.org'', start_date = ''2024-05-01'',
       start_datetime = ''2024-05-01 09:00'', end_datetime = ''2024-05-01 11:00'',
       sd_arrived = ''yes'' \<rparr>] \<noteq> []
   \<and> fst (handleSaveToSupabase None
       [\<lparr> sd_id = 1, position_ID = ''p1'', sd_volunteer_name = ''Ada Lovelace'',
          volunteer_email = ''ada@example.org'', start_date = ''2024-05-01'',
          start_datetime = ''2024-05-01 09:00'', end_datetime = ''2024-05-01 11:00'',
          sd_arrived = ''yes'' \<rparr>] [])
     = [\<lparr> ins_position_id = ''p1'', ins_volunteer_name = ''Ada Lovelace'',
          ins_email = ''ada@example.org'', ins_start_time = ''2024-05-01 09:00'',
          ins_end_time = ''2024-05-01 11:00'', ins_arrived = False \<rparr>]"
  using save_inserts_not_arrived
    [of "[\<lparr> sd_id = 1, position_ID = ''p1'', sd_volunteer_name = ''Ada Lovelace'',
          volunteer_email = ''ada@example.org'', start_date = ''2024-05-01'',
          start_datetime = ''2024-05-01 09:00'', end_datetime = ''2024-05-01 11:00'',
          sd_arrived = ''yes'' \<rparr>]" "[]"]
  by (simp add: toVolunteerSignup_def)

end
